theory Spec2Isabelle
  imports Main
begin

section \<open>Option parsing and validation of shallow-fetch-sha (internal/cli/options.go)\<close>

text \<open>
  The module under verification is one Go file. It holds the \<open>Options\<close> struct and the
  methods \<open>Auth\<close>, \<open>Validate\<close>, \<open>BindArgs\<close> and \<open>SetStorageMode\<close>. Strings are Go strings,
  that is byte sequences, so they are \<open>string\<close> (a list of 8-bit \<open>char\<close>) here and
  \<open>length\<close> is Go's \<open>len\<close>. A pointer field that may be nil is an \<open>option\<close>, and so is
  an interface value that may be nil. A method with a pointer receiver that assigns to
  fields returns the updated struct next to its result.
\<close>

subsection \<open>Errors\<close>

text \<open>
  A Go \<open>error\<close> built by this file is either \<open>errors.New(text)\<close> or
  \<open>fmt.Errorf(format, args...)\<close>; the format string and the arguments are kept as they
  are written in the source. Errors handed back by the libraries the file calls
  (path/filepath, go-billy, net/url, go-git's ssh transport) are \<open>library_error\<close>.
\<close>

datatype error =
    errors_New string
  | fmt_Errorf string "fmt_arg list"
  | library_error string
and fmt_arg =
    Str string
  | Err error

text \<open>\<open>func invalid(key, msg string) error\<close>, lines 94-96.\<close>

definition invalid :: "string \<Rightarrow> string \<Rightarrow> error" where
  "invalid key msg = fmt_Errorf ''%q is invalid: %s'' [Str key, Str msg]"

subsection \<open>Data\<close>

type_synonym StorageMode = string

definition FileSystemStorageMode :: StorageMode where
  "FileSystemStorageMode = ''fs''"

definition MemoryStorageMode :: StorageMode where
  "MemoryStorageMode = ''mem''"

text \<open>
  The values of go-billy and go-git that \<open>SetStorageMode\<close> builds, named after the
  constructor calls of the source: \<open>osfs.New(dir)\<close>, \<open>memfs.New()\<close>,
  \<open>cache.NewObjectLRUDefault()\<close>, \<open>filesystem.NewStorage(fs, cache)\<close> and
  \<open>memory.NewStorage()\<close>.
\<close>

datatype Filesystem =
    osfs_New string
  | memfs_New

datatype ObjectCache = NewObjectLRUDefault

datatype Storer =
    filesystem_NewStorage Filesystem ObjectCache
  | memory_NewStorage

record SSHAuthOptions =
  PEMPath :: string
  Passphrase :: string

record BasicAuthOptions =
  Username :: string
  Password :: string

record Options =
  Repo :: string
  SHA :: string
  Directory :: string
  RemoveDotGit :: bool
  BasicAuth :: "BasicAuthOptions option"
  SSHAuth :: "SSHAuthOptions option"
  storage :: "Storer option"
  worktree :: "Filesystem option"

subsection \<open>The SHA pattern\<close>

text \<open>
  \<open>regHex = regexp.MustCompile("^[0-9a-fA-F]+$")\<close>, lines 33-35. Without the \<open>m\<close> flag
  Go's \<open>^\<close> and \<open>$\<close> match only at the two ends of the text, so \<open>MatchString\<close> holds
  exactly of the non-empty texts whose every byte lies in one of the three ranges of
  the class. A byte outside ASCII is part of no range.
\<close>

definition byte_in_range :: "char \<Rightarrow> char \<Rightarrow> char \<Rightarrow> bool" where
  "byte_in_range lo hi c =
     ((of_char lo :: nat) \<le> of_char c \<and> (of_char c :: nat) \<le> of_char hi)"

definition regHex_class :: "char \<Rightarrow> bool" where
  "regHex_class c =
     (byte_in_range CHR ''0'' CHR ''9'' c \<or>
      byte_in_range CHR ''a'' CHR ''f'' c \<or>
      byte_in_range CHR ''A'' CHR ''F'' c)"

definition regHex_MatchString :: "string \<Rightarrow> bool" where
  "regHex_MatchString s = (s \<noteq> [] \<and> list_all regHex_class s)"

text \<open>
  The specification's wording of the same test, for comparison with the code's:
  a string of exactly 40 hexadecimal characters, the digits 0-9 and the letters a-f
  or A-F.
\<close>

definition spec_hex_chars :: "char list" where
  "spec_hex_chars = ''0123456789abcdefABCDEF''"

definition spec_sha40 :: "string \<Rightarrow> bool" where
  "spec_sha40 s = (length s = 40 \<and> list_all (\<lambda>c. c \<in> set spec_hex_chars) s)"

subsection \<open>Validate\<close>

text \<open>The block of lines 111-119: the sub-fields of \<open>BasicAuth\<close>, username first.\<close>

definition check_BasicAuth :: "Options \<Rightarrow> error option" where
  \<open>check_BasicAuth opts =
     (case BasicAuth opts of
        None \<Rightarrow> None
      | Some b \<Rightarrow>
          if Username b = ''''
          then Some (invalid ''username''
                 ''required if password specified (if using token, set username to "token")'')
          else if Password b = ''''
          then Some (invalid ''password'' ''required if username specified'')
          else None)\<close>

text \<open>The block of lines 121-125: the key path of \<open>SSHAuth\<close>.\<close>

definition check_SSHAuth :: "Options \<Rightarrow> error option" where
  "check_SSHAuth opts =
     (case SSHAuth opts of
        None \<Rightarrow> None
      | Some s \<Rightarrow>
          if PEMPath s = '''' then Some (invalid ''key-path'' ''required if ssh options set'')
          else None)"

text \<open>
  \<open>func (opts *Options) Validate() error\<close>, lines 98-132: the checks in the order of the
  source, the first that fails gives the error returned; \<open>None\<close> is Go's nil error.
\<close>

definition Validate :: "Options \<Rightarrow> error option" where
  "Validate opts =
     (if Repo opts = '''' then Some (invalid ''repo'' ''it is required'')
      else if length (SHA opts) \<noteq> 40 \<or> \<not> regHex_MatchString (SHA opts)
      then Some (invalid ''sha'' ''must be full 40 hexadecimal character SHA1'')
      else if BasicAuth opts \<noteq> None \<and> SSHAuth opts \<noteq> None
      then Some (errors_New ''cannot specify both basic auth and ssh auth options'')
      else (case check_BasicAuth opts of
              Some e \<Rightarrow> Some e
            | None \<Rightarrow>
               (case check_SSHAuth opts of
                  Some e \<Rightarrow> Some e
                | None \<Rightarrow>
                    if worktree opts = None \<or> storage opts = None
                    then Some (errors_New ''filesystem storage not initalized'')
                    else None)))"

subsection \<open>BindArgs\<close>

text \<open>
  \<open>func (opts *Options) BindArgs(args []string) error\<close>, lines 134-141. The two index
  reads are in range, because they come after the length test.
\<close>

definition BindArgs :: "string list \<Rightarrow> Options \<Rightarrow> error option \<times> Options" where
  "BindArgs args opts =
     (if length args \<noteq> 2
      then (Some (errors_New ''missing arguments: must specify both repo and sha arguments''),
            opts)
      else (None, opts\<lparr>Repo := args ! 0, SHA := args ! 1\<rparr>))"

subsection \<open>SetStorageMode\<close>

text \<open>\<open>git.GitDirName\<close> of go-git, the name of the repository directory.\<close>

definition GitDirName :: string where
  "GitDirName = ''.git''"

text \<open>
  \<open>func (opts *Options) SetStorageMode(mode StorageMode) error\<close>, lines 203-238.
  Two calls leave the file: \<open>filepath.Abs\<close>, which asks the operating system for the
  working directory when the path is relative and can fail there, and the \<open>Chroot\<close>
  method of the worktree. Both are parameters, each returning its error or its value.
  The debug log line of lines 208-210 changes nothing of \<open>Options\<close> and is left out.
\<close>

definition SetStorageMode ::
  "(string \<Rightarrow> error + string) \<Rightarrow> (Filesystem \<Rightarrow> string \<Rightarrow> error + Filesystem) \<Rightarrow>
     StorageMode \<Rightarrow> Options \<Rightarrow> error option \<times> Options" where
  "SetStorageMode filepath_Abs Chroot mode opts =
     (if Directory opts = ''''
      then (Some (errors_New ''must initalize directory before setting storage mode''), opts)
      else if mode = FileSystemStorageMode then
        (case filepath_Abs (Directory opts) of
           Inl err \<Rightarrow> (Some (fmt_Errorf ''invalid directory: %s'' [Err err]), opts)
         | Inr absDir \<Rightarrow>
             (let wt = osfs_New absDir in
              case Chroot wt GitDirName of
                Inl err \<Rightarrow> (Some err, opts)
              | Inr dotGit \<Rightarrow>
                  (None, opts\<lparr>worktree := Some wt,
                              storage := Some (filesystem_NewStorage dotGit NewObjectLRUDefault)\<rparr>)))
      else if mode = MemoryStorageMode then
        (None, opts\<lparr>worktree := Some memfs_New, storage := Some memory_NewStorage\<rparr>)
      else (Some (fmt_Errorf ''%q is an invalid storage mode'' [Str mode]), opts))"

subsection \<open>Auth\<close>

text \<open>
  \<open>strings.Split(s, sep)\<close> for a separator of one byte, as in the call of line 65:
  the pieces between the occurrences of the separator, one more than there are
  occurrences, so never an empty list.
\<close>

fun strings_Split :: "string \<Rightarrow> char \<Rightarrow> string list" where
  "strings_Split [] sep = [[]]"
| "strings_Split (c # cs) sep =
     (if c = sep then [] # strings_Split cs sep
      else (case strings_Split cs sep of
              [] \<Rightarrow> [[c]]
            | p # ps \<Rightarrow> (c # p) # ps))"

text \<open>
  What \<open>Auth\<close> reads of net/url: a \<open>*url.URL\<close> has a field \<open>User\<close> of type
  \<open>*url.Userinfo\<close>, and \<open>Username()\<close> on a nil \<open>*Userinfo\<close> is the empty string.
\<close>

datatype Userinfo = Userinfo (username: string) (password: string)

record URL =
  Scheme :: string
  User :: "Userinfo option"
  Host :: string
  Path :: string

definition Userinfo_Username :: "Userinfo option \<Rightarrow> string" where
  "Userinfo_Username u = (case u of None \<Rightarrow> '''' | Some i \<Rightarrow> username i)"

text \<open>
  The credential \<open>Auth\<close> returns is a \<open>transport.AuthMethod\<close>: the \<open>*ssh.PublicKeys\<close>
  that \<open>ssh.NewPublicKeysFromFile\<close> gave (the pointer itself may be nil), or a
  \<open>&http.BasicAuth{Username, Password}\<close>. The type \<open>'k\<close> is the library's key object.
\<close>

datatype 'k AuthMethod =
    ssh_PublicKeys "'k option"
  | http_BasicAuth (http_Username: string) (http_Password: string)

text \<open>
  A call of \<open>Auth\<close> either returns its pair or stops in Go's run-time panic for reading
  a field through a nil pointer.
\<close>

datatype 'a outcome =
    nil_pointer_dereference
  | Returned 'a

text \<open>
  The user name computed by lines 61-73. \<open>url.Parse\<close> is a parameter giving Go's pair
  \<open>(*URL, error)\<close>. The source enters the inner block when \<open>err != nil\<close> and reads
  \<open>parsed.User\<close> there, which panics when \<open>parsed\<close> is nil.
\<close>

definition ssh_user ::
  "(string \<Rightarrow> URL option \<times> error option) \<Rightarrow> string \<Rightarrow> string outcome" where
  "ssh_user url_Parse repo =
     (let user = ''git'';
          pieces = strings_Split repo CHR '':''
      in if length pieces = 2 then
           (case url_Parse (pieces ! 0) of
              (parsed, err) \<Rightarrow>
                if err \<noteq> None then
                  (case parsed of
                     None \<Rightarrow> nil_pointer_dereference
                   | Some u \<Rightarrow>
                       (let parsedUser = Userinfo_Username (User u)
                        in if parsedUser \<noteq> '''' then Returned parsedUser else Returned user))
                else Returned user)
         else Returned user)"

text \<open>
  \<open>func (opts *Options) Auth() (transport.AuthMethod, error)\<close>, lines 59-92.
  \<open>ssh.NewPublicKeysFromFile\<close> reads the key file and is a parameter giving Go's pair
  \<open>(*PublicKeys, error)\<close>. In the basic-auth branch the local \<open>user\<close> is computed as in
  the source and the struct literal is built from the fields of \<open>opts.BasicAuth\<close>.
\<close>

definition Auth ::
  "(string \<Rightarrow> URL option \<times> error option) \<Rightarrow>
   (string \<Rightarrow> string \<Rightarrow> string \<Rightarrow> 'k option \<times> error option) \<Rightarrow>
   Options \<Rightarrow> ('k AuthMethod option \<times> error option) outcome" where
  "Auth url_Parse ssh_NewPublicKeysFromFile opts =
     (case SSHAuth opts of
        Some sshAuth \<Rightarrow>
          (case ssh_user url_Parse (Repo opts) of
             nil_pointer_dereference \<Rightarrow> nil_pointer_dereference
           | Returned user \<Rightarrow>
               (case ssh_NewPublicKeysFromFile user (PEMPath sshAuth) (Passphrase sshAuth) of
                  (keys, err) \<Rightarrow> Returned (Some (ssh_PublicKeys keys), err)))
      | None \<Rightarrow>
          (case BasicAuth opts of
             Some basicAuth \<Rightarrow>
               (let user = Username basicAuth;
                    user = (if user = '''' then ''token'' else user)
                in Returned (Some (http_BasicAuth (Username basicAuth) (Password basicAuth)),
                             None))
           | None \<Rightarrow> Returned (None, None)))"

subsection \<open>Concrete inputs\<close>

text \<open>
  The inputs at which the theorems below are evaluated. \<open>sha_ex\<close> is a full SHA-1 in
  lower-case hexadecimal; \<open>opts_ready\<close> is an \<open>Options\<close> value as it is after
  \<open>BindArgs\<close>, \<open>BindFlags\<close> and \<open>SetStorageMode\<close> with mode \<open>mem\<close>, without credentials;
  \<open>opts_fresh\<close> is the same before \<open>SetStorageMode\<close> has run.
\<close>

definition sha_ex :: string where
  "sha_ex = ''da39a3ee5e6b4b0d3255bfef95601890afd80709''"

definition opts_ready :: Options where
  "opts_ready =
     \<lparr>Repo = ''https://example.com/org/repo.git'', SHA = sha_ex, Directory = ''out'',
      RemoveDotGit = False, BasicAuth = None, SSHAuth = None,
      storage = Some memory_NewStorage, worktree = Some memfs_New\<rparr>"

definition opts_fresh :: Options where
  "opts_fresh = opts_ready\<lparr>storage := None, worktree := None\<rparr>"

definition basic_ex :: BasicAuthOptions where
  "basic_ex = \<lparr>Username = ''alice'', Password = ''secret''\<rparr>"

definition token_ex :: BasicAuthOptions where
  "token_ex = \<lparr>Username = '''', Password = ''ghp_0123456789''\<rparr>"

definition key_ex :: SSHAuthOptions where
  "key_ex = \<lparr>PEMPath = ''/home/alice/.ssh/id_ed25519'', Passphrase = ''''\<rparr>"

text \<open>
  Two states of the operating system for \<open>filepath.Abs\<close>, on paths that are already
  clean: a process whose working directory is \<open>/work\<close>, and a process whose working
  directory has been removed, where a relative path has no absolute form. The \<open>Chroot\<close>
  of an \<open>osfs\<close> filesystem is the filesystem of the sub-directory.
\<close>

definition filepath_Abs_in_work :: "string \<Rightarrow> error + string" where
  "filepath_Abs_in_work p =
     (case p of
        [] \<Rightarrow> Inr ''/work''
      | c # cs \<Rightarrow> if c = CHR ''/'' then Inr p else Inr (''/work/'' @ p))"

definition filepath_Abs_no_cwd :: "string \<Rightarrow> error + string" where
  "filepath_Abs_no_cwd p =
     (case p of
        [] \<Rightarrow> Inl (library_error ''getwd: no such file or directory'')
      | c # cs \<Rightarrow>
          if c = CHR ''/'' then Inr p
          else Inl (library_error ''getwd: no such file or directory''))"

definition Chroot_ex :: "Filesystem \<Rightarrow> string \<Rightarrow> error + Filesystem" where
  "Chroot_ex fs p =
     (case fs of
        osfs_New root \<Rightarrow> Inr (osfs_New (root @ ''/'' @ p))
      | memfs_New \<Rightarrow> Inr memfs_New)"

text \<open>
  \<open>url.Parse\<close> on the two texts the examples hand to it. The first has no scheme and no
  authority and parses to a URL that is all path; the second holds \<open>%mp\<close>, which is no
  percent escape, and \<open>url.Parse\<close> returns a nil URL with its error.
\<close>

definition url_Parse_ex :: "string \<Rightarrow> URL option \<times> error option" where
  "url_Parse_ex s =
     (if s = ''git@exa%mple.com''
      then (None, Some (library_error ''net/url: invalid URL escape''))
      else (Some \<lparr>Scheme = '''', User = None, Host = '''', Path = s\<rparr>, None))"

text \<open>
  \<open>ssh.NewPublicKeysFromFile\<close> with the key file present: the key object records the
  user, the path and the passphrase it was loaded with.
\<close>

definition NewPublicKeysFromFile_ex ::
  "string \<Rightarrow> string \<Rightarrow> string \<Rightarrow> (string \<times> string \<times> string) option \<times> error option" where
  "NewPublicKeysFromFile_ex user pemFile pw = (Some (user, pemFile, pw), None)"

definition opts_ssh :: Options where
  "opts_ssh =
     opts_ready\<lparr>Repo := ''deploy@example.com:org/repo.git'', SSHAuth := Some key_ex\<rparr>"

definition opts_bad_url :: Options where
  "opts_bad_url =
     opts_ready\<lparr>Repo := ''git@exa%mple.com:org/repo.git'', SSHAuth := Some key_ex\<rparr>"

section \<open>Properties\<close>

subsection \<open>The SHA test of the code and the specification's wording\<close>

lemma regHex_class_iff: "regHex_class c \<longleftrightarrow> c \<in> set spec_hex_chars"
proof -
  define n where "n = (of_char c :: nat)"
  have eq: "(c = d) = (n = of_char d)" for d
    by (simp add: n_def)
  have "regHex_class c \<longleftrightarrow>
          (48 \<le> n \<and> n \<le> 57) \<or> (97 \<le> n \<and> n \<le> 102) \<or> (65 \<le> n \<and> n \<le> 70)"
    by (simp add: regHex_class_def byte_in_range_def n_def)
  also have "\<dots> \<longleftrightarrow>
      n \<in> {48, 49, 50, 51, 52, 53, 54, 55, 56, 57, 97, 98, 99, 100, 101, 102,
           65, 66, 67, 68, 69, 70}"
    by (simp only: insert_iff empty_iff) arith
  also have "\<dots> \<longleftrightarrow> c \<in> set spec_hex_chars"
    by (simp add: eq spec_hex_chars_def)
  finally show ?thesis .
qed

lemma sha_test_iff: "(length s = 40 \<and> regHex_MatchString s) \<longleftrightarrow> spec_sha40 s"
  by (auto simp: regHex_MatchString_def spec_sha40_def regHex_class_iff list_all_iff)

lemma spec_sha40_sha_ex: "spec_sha40 sha_ex"
  by (simp add: spec_sha40_def sha_ex_def spec_hex_chars_def)

lemma sha_ex_passes: "length sha_ex = 40 \<and> regHex_MatchString sha_ex"
  using spec_sha40_sha_ex by (simp add: sha_test_iff)

lemma not_spec_sha40_short: "\<not> spec_sha40 ''da39a3e''"
  by (simp add: spec_sha40_def)

subsection \<open>Validate\<close>

text \<open>What is left of \<open>Validate\<close> once the repository and the SHA have passed.\<close>

lemma Validate_past_sha:
  assumes "Repo opts \<noteq> ''''" and "length (SHA opts) = 40" and "regHex_MatchString (SHA opts)"
  shows "Validate opts =
     (if BasicAuth opts \<noteq> None \<and> SSHAuth opts \<noteq> None
      then Some (errors_New ''cannot specify both basic auth and ssh auth options'')
      else (case check_BasicAuth opts of
              Some e \<Rightarrow> Some e
            | None \<Rightarrow>
               (case check_SSHAuth opts of
                  Some e \<Rightarrow> Some e
                | None \<Rightarrow>
                    if worktree opts = None \<or> storage opts = None
                    then Some (errors_New ''filesystem storage not initalized'')
                    else None)))"
  using assms by (simp add: Validate_def)

lemma check_BasicAuth_not_sha: "check_BasicAuth opts \<noteq> Some (invalid ''sha'' msg)"
  by (simp add: check_BasicAuth_def invalid_def split: option.split)

lemma check_SSHAuth_not_sha: "check_SSHAuth opts \<noteq> Some (invalid ''sha'' msg)"
  by (simp add: check_SSHAuth_def invalid_def split: option.split)

lemma Validate_past_sha_not_sha:
  assumes "Repo opts \<noteq> ''''" and "length (SHA opts) = 40" and "regHex_MatchString (SHA opts)"
  shows "Validate opts \<noteq> Some (invalid ''sha'' msg)"
proof -
  have new: "errors_New t \<noteq> invalid ''sha'' msg" for t
    by (simp add: invalid_def)
  show ?thesis
    unfolding Validate_past_sha [OF assms]
    using check_BasicAuth_not_sha [of opts msg] check_SSHAuth_not_sha [of opts msg] new
    by (auto split: option.split)
qed

text \<open>
  With the repository and the SHA passed, \<open>Validate\<close> returns nil exactly when every
  later check passes: not both ways to authenticate, complete credentials, and a
  worktree and a storage.
\<close>

lemma Validate_past_sha_None_iff:
  assumes "Repo opts \<noteq> ''''" and "length (SHA opts) = 40" and "regHex_MatchString (SHA opts)"
  shows "Validate opts = None \<longleftrightarrow>
     \<not> (BasicAuth opts \<noteq> None \<and> SSHAuth opts \<noteq> None) \<and>
     (\<forall>b. BasicAuth opts = Some b \<longrightarrow> Username b \<noteq> '''' \<and> Password b \<noteq> '''') \<and>
     (\<forall>s. SSHAuth opts = Some s \<longrightarrow> PEMPath s \<noteq> '''') \<and>
     worktree opts \<noteq> None \<and> storage opts \<noteq> None"
proof (cases "BasicAuth opts")
  case None
  show ?thesis
  proof (cases "SSHAuth opts")
    case None
    with \<open>BasicAuth opts = None\<close> show ?thesis
      by (simp add: Validate_past_sha [OF assms] check_BasicAuth_def check_SSHAuth_def)
  next
    case (Some s)
    with \<open>BasicAuth opts = None\<close> show ?thesis
      by (simp add: Validate_past_sha [OF assms] check_BasicAuth_def check_SSHAuth_def)
  qed
next
  case (Some b)
  show ?thesis
  proof (cases "SSHAuth opts")
    case None
    with \<open>BasicAuth opts = Some b\<close> show ?thesis
      by (simp add: Validate_past_sha [OF assms] check_BasicAuth_def check_SSHAuth_def)
  next
    case (Some s)
    with \<open>BasicAuth opts = Some b\<close> show ?thesis
      by (simp add: Validate_past_sha [OF assms])
  qed
qed

text \<open>
  C1, as amended. For every \<open>Options\<close> value whose \<open>Repo\<close> is not empty and that passes
  the checks \<open>Validate\<close> makes after the SHA test (not both \<open>BasicAuth\<close> and \<open>SSHAuth\<close>
  set; \<open>Username\<close> and \<open>Password\<close> non-empty when \<open>BasicAuth\<close> is set; \<open>PEMPath\<close>
  non-empty when \<open>SSHAuth\<close> is set; worktree and storage set), \<open>Validate\<close> returns an
  error if and only if \<open>SHA\<close> is not a string of exactly 40 hexadecimal characters.
  For every value with a non-empty \<open>Repo\<close>, whatever the later checks would say, a
  \<open>SHA\<close> that fails this test gives the error that names the key \<open>sha\<close>, and a \<open>SHA\<close>
  that passes it never gives that error and gives nil exactly when the later checks
  pass.
\<close>

theorem Validate_sha_error:
  assumes "Repo opts \<noteq> ''''"
  shows
    "(\<not> (BasicAuth opts \<noteq> None \<and> SSHAuth opts \<noteq> None) \<and>
      (\<forall>b. BasicAuth opts = Some b \<longrightarrow> Username b \<noteq> '''' \<and> Password b \<noteq> '''') \<and>
      (\<forall>s. SSHAuth opts = Some s \<longrightarrow> PEMPath s \<noteq> '''') \<and>
      worktree opts \<noteq> None \<and> storage opts \<noteq> None \<longrightarrow>
        (Validate opts \<noteq> None \<longleftrightarrow> \<not> spec_sha40 (SHA opts))) \<and>
     (\<not> spec_sha40 (SHA opts) \<longrightarrow>
        Validate opts = Some (invalid ''sha'' ''must be full 40 hexadecimal character SHA1'')) \<and>
     ((\<exists>msg. Validate opts = Some (invalid ''sha'' msg)) \<longleftrightarrow> \<not> spec_sha40 (SHA opts)) \<and>
     (spec_sha40 (SHA opts) \<longrightarrow>
        (Validate opts = None \<longleftrightarrow>
           \<not> (BasicAuth opts \<noteq> None \<and> SSHAuth opts \<noteq> None) \<and>
           (\<forall>b. BasicAuth opts = Some b \<longrightarrow> Username b \<noteq> '''' \<and> Password b \<noteq> '''') \<and>
           (\<forall>s. SSHAuth opts = Some s \<longrightarrow> PEMPath s \<noteq> '''') \<and>
           worktree opts \<noteq> None \<and> storage opts \<noteq> None))"
proof -
  let ?later =
    "\<not> (BasicAuth opts \<noteq> None \<and> SSHAuth opts \<noteq> None) \<and>
     (\<forall>b. BasicAuth opts = Some b \<longrightarrow> Username b \<noteq> '''' \<and> Password b \<noteq> '''') \<and>
     (\<forall>s. SSHAuth opts = Some s \<longrightarrow> PEMPath s \<noteq> '''') \<and>
     worktree opts \<noteq> None \<and> storage opts \<noteq> None"
  have bad: "Validate opts = Some (invalid ''sha'' ''must be full 40 hexadecimal character SHA1'')"
    if "\<not> spec_sha40 (SHA opts)"
  proof -
    from that have "length (SHA opts) \<noteq> 40 \<or> \<not> regHex_MatchString (SHA opts)"
      by (simp add: sha_test_iff [symmetric])
    with assms show ?thesis
      by (simp add: Validate_def)
  qed
  have good_nil: "Validate opts = None \<longleftrightarrow> ?later" if "spec_sha40 (SHA opts)"
  proof -
    from that have len: "length (SHA opts) = 40" and hex: "regHex_MatchString (SHA opts)"
      by (simp_all add: sha_test_iff [symmetric])
    show ?thesis
      by (rule Validate_past_sha_None_iff [OF assms len hex])
  qed
  have good_no_sha: "Validate opts \<noteq> Some (invalid ''sha'' msg)"
    if "spec_sha40 (SHA opts)" for msg
  proof -
    from that have len: "length (SHA opts) = 40" and hex: "regHex_MatchString (SHA opts)"
      by (simp_all add: sha_test_iff [symmetric])
    from assms len hex show ?thesis
      by (rule Validate_past_sha_not_sha)
  qed
  have c1: "?later \<longrightarrow> (Validate opts \<noteq> None \<longleftrightarrow> \<not> spec_sha40 (SHA opts))"
  proof (cases "spec_sha40 (SHA opts)")
    case True
    with good_nil show ?thesis by simp
  next
    case False
    with bad show ?thesis by simp
  qed
  have c2: "\<not> spec_sha40 (SHA opts) \<longrightarrow>
        Validate opts = Some (invalid ''sha'' ''must be full 40 hexadecimal character SHA1'')"
    using bad by simp
  have c3: "(\<exists>msg. Validate opts = Some (invalid ''sha'' msg)) \<longleftrightarrow> \<not> spec_sha40 (SHA opts)"
  proof (cases "spec_sha40 (SHA opts)")
    case True
    with good_no_sha show ?thesis by simp
  next
    case False
    from bad [OF False] have "\<exists>msg. Validate opts = Some (invalid ''sha'' msg)"
      by (intro exI)
    with False show ?thesis by simp
  qed
  have c4: "spec_sha40 (SHA opts) \<longrightarrow> (Validate opts = None \<longleftrightarrow> ?later)"
    using good_nil by simp
  from c1 c2 c3 c4 show ?thesis
    by (intro conjI)
qed

theorem Validate_sha_error_witness:
  "Repo opts_ready \<noteq> '''' \<and>
   spec_sha40 (SHA opts_ready) \<and>
   Validate opts_ready = None \<and>
   Repo (opts_ready\<lparr>SHA := ''da39a3e''\<rparr>) \<noteq> '''' \<and>
   \<not> spec_sha40 (SHA (opts_ready\<lparr>SHA := ''da39a3e''\<rparr>)) \<and>
   Validate (opts_ready\<lparr>SHA := ''da39a3e''\<rparr>) =
     Some (invalid ''sha'' ''must be full 40 hexadecimal character SHA1'')"
proof -
  have good: "spec_sha40 (SHA opts_ready)"
    using spec_sha40_sha_ex by (simp add: opts_ready_def)
  have "Validate opts_ready = None"
    using Validate_sha_error [of opts_ready] good
    by (simp add: opts_ready_def)
  moreover have "Validate (opts_ready\<lparr>SHA := ''da39a3e''\<rparr>) =
     Some (invalid ''sha'' ''must be full 40 hexadecimal character SHA1'')"
    using Validate_sha_error [of "opts_ready\<lparr>SHA := ''da39a3e''\<rparr>"] not_spec_sha40_short
    by (simp add: opts_ready_def)
  ultimately show ?thesis
    using good not_spec_sha40_short by (simp add: opts_ready_def)
qed

text \<open>
  C1 as it is written fails: with a repository, a SHA of 40 hexadecimal characters, a
  worktree and a storage, and a password given without a user name, \<open>Validate\<close>
  returns an error, the one that names \<open>username\<close>.
\<close>

theorem Validate_sha_iff_counterexample:
  "Repo (opts_ready\<lparr>BasicAuth := Some token_ex\<rparr>) \<noteq> '''' \<and>
   spec_sha40 (SHA (opts_ready\<lparr>BasicAuth := Some token_ex\<rparr>)) \<and>
   Validate (opts_ready\<lparr>BasicAuth := Some token_ex\<rparr>) =
     Some (invalid ''username''
       (''required if password specified (if using token, set username to '' @
         [CHR 0x22] @ ''token'' @ [CHR 0x22] @ '')'')) \<and>
   \<not> (Validate (opts_ready\<lparr>BasicAuth := Some token_ex\<rparr>) \<noteq> None \<longleftrightarrow>
        \<not> spec_sha40 (SHA (opts_ready\<lparr>BasicAuth := Some token_ex\<rparr>)))"
proof -
  let ?o = "opts_ready\<lparr>BasicAuth := Some token_ex\<rparr>"
  have repo: "Repo ?o \<noteq> ''''"
    by (simp add: opts_ready_def)
  have sha: "SHA ?o = sha_ex"
    by (simp add: opts_ready_def)
  have v: "Validate ?o = Some (invalid ''username''
       (''required if password specified (if using token, set username to '' @
         [CHR 0x22] @ ''token'' @ [CHR 0x22] @ '')''))"
    using sha_ex_passes
    by (simp add: Validate_past_sha [OF repo] sha check_BasicAuth_def)
       (simp add: opts_ready_def token_ex_def)
  show ?thesis
    using repo v spec_sha40_sha_ex by (simp add: sha)
qed

text \<open>
  C2. For every \<open>Options\<close> value with an empty \<open>Repo\<close>, whatever its other fields hold,
  \<open>Validate\<close> returns the error that names the key \<open>repo\<close> as required.
\<close>

theorem Validate_empty_repo:
  assumes "Repo opts = ''''"
  shows "Validate opts = Some (invalid ''repo'' ''it is required'')"
  using assms by (simp add: Validate_def)

theorem Validate_empty_repo_witness:
  "Repo (opts_fresh\<lparr>Repo := '''', SHA := ''xyz''\<rparr>) = '''' \<and>
   Validate (opts_fresh\<lparr>Repo := '''', SHA := ''xyz''\<rparr>) =
     Some (invalid ''repo'' ''it is required'')"
  using Validate_empty_repo [of "opts_fresh\<lparr>Repo := '''', SHA := ''xyz''\<rparr>"]
  by simp

text \<open>
  C3. The two ways to authenticate exclude each other: for every \<open>Options\<close> value that
  passes the tests of the repository and of the SHA and has both \<open>BasicAuth\<close> and
  \<open>SSHAuth\<close> set, \<open>Validate\<close> returns an error.
\<close>

theorem Validate_both_auth_modes:
  assumes "Repo opts \<noteq> ''''" and "length (SHA opts) = 40" and "regHex_MatchString (SHA opts)"
    and "BasicAuth opts \<noteq> None" and "SSHAuth opts \<noteq> None"
  shows "Validate opts =
           Some (errors_New ''cannot specify both basic auth and ssh auth options'')"
  using assms by (simp add: Validate_def)

theorem Validate_both_auth_modes_witness:
  "Repo (opts_ready\<lparr>BasicAuth := Some basic_ex, SSHAuth := Some key_ex\<rparr>) \<noteq> '''' \<and>
   length (SHA (opts_ready\<lparr>BasicAuth := Some basic_ex, SSHAuth := Some key_ex\<rparr>)) = 40 \<and>
   regHex_MatchString (SHA (opts_ready\<lparr>BasicAuth := Some basic_ex, SSHAuth := Some key_ex\<rparr>)) \<and>
   BasicAuth (opts_ready\<lparr>BasicAuth := Some basic_ex, SSHAuth := Some key_ex\<rparr>) \<noteq> None \<and>
   SSHAuth (opts_ready\<lparr>BasicAuth := Some basic_ex, SSHAuth := Some key_ex\<rparr>) \<noteq> None \<and>
   Validate (opts_ready\<lparr>BasicAuth := Some basic_ex, SSHAuth := Some key_ex\<rparr>) =
     Some (errors_New ''cannot specify both basic auth and ssh auth options'')"
  using Validate_both_auth_modes
          [of "opts_ready\<lparr>BasicAuth := Some basic_ex, SSHAuth := Some key_ex\<rparr>"]
        sha_ex_passes
  by (simp add: opts_ready_def)

lemma check_BasicAuth_Some:
  assumes "BasicAuth opts = Some b"
  shows "check_BasicAuth opts =
     (if Username b = ''''
      then Some (invalid ''username''
             (''required if password specified (if using token, set username to '' @
               [CHR 0x22] @ ''token'' @ [CHR 0x22] @ '')''))
      else if Password b = ''''
      then Some (invalid ''password'' ''required if username specified'')
      else None)"
  using assms by (simp add: check_BasicAuth_def)

lemma check_SSHAuth_Some:
  assumes "SSHAuth opts = Some s"
  shows "check_SSHAuth opts =
     (if PEMPath s = '''' then Some (invalid ''key-path'' ''required if ssh options set'')
      else None)"
  using assms by (simp add: check_SSHAuth_def)

lemma check_BasicAuth_None: "BasicAuth opts = None \<Longrightarrow> check_BasicAuth opts = None"
  by (simp add: check_BasicAuth_def)

lemma check_SSHAuth_None: "SSHAuth opts = None \<Longrightarrow> check_SSHAuth opts = None"
  by (simp add: check_SSHAuth_def)

text \<open>
  C4, as amended. For every \<open>Options\<close> value that passes the tests of the repository,
  of the SHA and of the exclusion of the two ways to authenticate: with \<open>BasicAuth\<close>
  set, \<open>Validate\<close> returns the \<open>username\<close> error when \<open>Username\<close> is empty, else the
  \<open>password\<close> error when \<open>Password\<close> is empty; with \<open>SSHAuth\<close> set, it returns the
  \<open>key-path\<close> error when \<open>PEMPath\<close> is empty, whatever the passphrase; and when the
  credentials are complete it returns an error exactly when the worktree or the
  storage is nil. So for values whose worktree and storage are set, \<open>Validate\<close> returns
  an error exactly when a required part of the credentials is empty.
\<close>

theorem Validate_credentials:
  assumes "Repo opts \<noteq> ''''" and "length (SHA opts) = 40" and "regHex_MatchString (SHA opts)"
    and "\<not> (BasicAuth opts \<noteq> None \<and> SSHAuth opts \<noteq> None)"
  shows
    "(\<forall>b. BasicAuth opts = Some b \<longrightarrow>
        Validate opts =
          (if Username b = ''''
           then Some (invalid ''username''
                  (''required if password specified (if using token, set username to '' @
                    [CHR 0x22] @ ''token'' @ [CHR 0x22] @ '')''))
           else if Password b = ''''
           then Some (invalid ''password'' ''required if username specified'')
           else if worktree opts = None \<or> storage opts = None
           then Some (errors_New ''filesystem storage not initalized'')
           else None)) \<and>
     (\<forall>s. SSHAuth opts = Some s \<longrightarrow>
        Validate opts =
          (if PEMPath s = ''''
           then Some (invalid ''key-path'' ''required if ssh options set'')
           else if worktree opts = None \<or> storage opts = None
           then Some (errors_New ''filesystem storage not initalized'')
           else None)) \<and>
     (worktree opts \<noteq> None \<and> storage opts \<noteq> None \<longrightarrow>
        (\<forall>b. BasicAuth opts = Some b \<longrightarrow>
           (Validate opts \<noteq> None \<longleftrightarrow> Username b = '''' \<or> Password b = '''')) \<and>
        (\<forall>s. SSHAuth opts = Some s \<longrightarrow>
           (Validate opts \<noteq> None \<longleftrightarrow> PEMPath s = '''')))"
proof -
  note past = Validate_past_sha [OF assms(1-3)]
  have basic: "Validate opts =
          (if Username b = ''''
           then Some (invalid ''username''
                  (''required if password specified (if using token, set username to '' @
                    [CHR 0x22] @ ''token'' @ [CHR 0x22] @ '')''))
           else if Password b = ''''
           then Some (invalid ''password'' ''required if username specified'')
           else if worktree opts = None \<or> storage opts = None
           then Some (errors_New ''filesystem storage not initalized'')
           else None)" if b: "BasicAuth opts = Some b" for b
  proof -
    from b assms(4) have "SSHAuth opts = None" by simp
    then show ?thesis
      by (simp add: past b check_BasicAuth_Some [OF b] check_SSHAuth_None)
  qed
  have ssh: "Validate opts =
          (if PEMPath s = ''''
           then Some (invalid ''key-path'' ''required if ssh options set'')
           else if worktree opts = None \<or> storage opts = None
           then Some (errors_New ''filesystem storage not initalized'')
           else None)" if s: "SSHAuth opts = Some s" for s
  proof -
    from s assms(4) have "BasicAuth opts = None" by simp
    then show ?thesis
      by (simp add: past s check_SSHAuth_Some [OF s] check_BasicAuth_None)
  qed
  have "Validate opts \<noteq> None \<longleftrightarrow> Username b = '''' \<or> Password b = ''''"
    if "worktree opts \<noteq> None" and "storage opts \<noteq> None" and "BasicAuth opts = Some b" for b
    using that by (auto simp add: basic)
  moreover have "Validate opts \<noteq> None \<longleftrightarrow> PEMPath s = ''''"
    if "worktree opts \<noteq> None" and "storage opts \<noteq> None" and "SSHAuth opts = Some s" for s
    using that by (auto simp add: ssh)
  ultimately show ?thesis
    using basic ssh by blast
qed

theorem Validate_credentials_witness:
  "Validate (opts_ready\<lparr>BasicAuth := Some token_ex\<rparr>) =
     Some (invalid ''username''
            (''required if password specified (if using token, set username to '' @
              [CHR 0x22] @ ''token'' @ [CHR 0x22] @ '')'')) \<and>
   Validate (opts_ready\<lparr>SSHAuth := Some key_ex\<rparr>) = None \<and>
   Passphrase key_ex = ''''"
proof -
  have "Validate (opts_ready\<lparr>BasicAuth := Some token_ex\<rparr>) =
     Some (invalid ''username''
            (''required if password specified (if using token, set username to '' @
              [CHR 0x22] @ ''token'' @ [CHR 0x22] @ '')''))"
    using Validate_credentials [of "opts_ready\<lparr>BasicAuth := Some token_ex\<rparr>"] sha_ex_passes
    by (simp add: opts_ready_def token_ex_def)
  moreover have "Validate (opts_ready\<lparr>SSHAuth := Some key_ex\<rparr>) = None"
    using Validate_credentials [of "opts_ready\<lparr>SSHAuth := Some key_ex\<rparr>"] sha_ex_passes
    by (simp add: opts_ready_def key_ex_def)
  ultimately show ?thesis
    by (simp add: key_ex_def)
qed

text \<open>
  C4 as it is written fails: a value that passes the three earlier tests and holds a
  user name and a password, both non-empty, still gets an error from \<open>Validate\<close> when
  \<open>SetStorageMode\<close> has not run.
\<close>

theorem Validate_credentials_counterexample:
  "Repo (opts_fresh\<lparr>BasicAuth := Some basic_ex\<rparr>) \<noteq> '''' \<and>
   length (SHA (opts_fresh\<lparr>BasicAuth := Some basic_ex\<rparr>)) = 40 \<and>
   regHex_MatchString (SHA (opts_fresh\<lparr>BasicAuth := Some basic_ex\<rparr>)) \<and>
   BasicAuth (opts_fresh\<lparr>BasicAuth := Some basic_ex\<rparr>) = Some basic_ex \<and>
   SSHAuth (opts_fresh\<lparr>BasicAuth := Some basic_ex\<rparr>) = None \<and>
   Username basic_ex \<noteq> '''' \<and> Password basic_ex \<noteq> '''' \<and>
   Validate (opts_fresh\<lparr>BasicAuth := Some basic_ex\<rparr>) =
     Some (errors_New ''filesystem storage not initalized'')"
proof -
  let ?o = "opts_fresh\<lparr>BasicAuth := Some basic_ex\<rparr>"
  have repo: "Repo ?o \<noteq> ''''" and sha: "SHA ?o = sha_ex"
    and auth: "BasicAuth ?o = Some basic_ex" "SSHAuth ?o = None"
    and st: "worktree ?o = None"
    by (simp_all add: opts_fresh_def opts_ready_def)
  have cred: "Username basic_ex \<noteq> ''''" "Password basic_ex \<noteq> ''''"
    by (simp_all add: basic_ex_def)
  have "Validate ?o = Some (errors_New ''filesystem storage not initalized'')"
    using sha_ex_passes cred
    by (simp add: Validate_past_sha [OF repo] sha auth st
          check_BasicAuth_Some [OF auth(1)] check_SSHAuth_None [OF auth(2)])
  with repo auth cred sha_ex_passes show ?thesis
    by (simp add: sha)
qed

subsection \<open>BindArgs\<close>

text \<open>
  C10. \<open>BindArgs\<close> returns an error if and only if the argument list does not have
  exactly two elements; on success \<open>Repo\<close> is the first argument, \<open>SHA\<close> the second and
  every other field is as before; on error the \<open>Options\<close> value is as before.
\<close>

theorem BindArgs_two_arguments:
  "(fst (BindArgs args opts) \<noteq> None \<longleftrightarrow> length args \<noteq> 2) \<and>
   (\<forall>repo sha. args = [repo, sha] \<longrightarrow>
      BindArgs args opts = (None, opts\<lparr>Repo := repo, SHA := sha\<rparr>)) \<and>
   (length args = 2 \<longrightarrow>
      BindArgs args opts = (None, opts\<lparr>Repo := args ! 0, SHA := args ! 1\<rparr>)) \<and>
   (length args \<noteq> 2 \<longrightarrow> snd (BindArgs args opts) = opts)"
  by (simp add: BindArgs_def)

theorem BindArgs_two_arguments_witness:
  "BindArgs [''git@example.com:org/repo.git'', sha_ex] opts_fresh =
     (None, opts_fresh\<lparr>Repo := ''git@example.com:org/repo.git'', SHA := sha_ex\<rparr>) \<and>
   fst (BindArgs [sha_ex] opts_fresh) \<noteq> None \<and>
   snd (BindArgs [sha_ex] opts_fresh) = opts_fresh \<and>
   fst (BindArgs [] opts_fresh) \<noteq> None \<and>
   fst (BindArgs [''a'', ''b'', ''c''] opts_fresh) \<noteq> None"
  using BindArgs_two_arguments [of "[''git@example.com:org/repo.git'', sha_ex]" opts_fresh]
    BindArgs_two_arguments [of "[sha_ex]" opts_fresh]
    BindArgs_two_arguments [of "[]" opts_fresh]
    BindArgs_two_arguments [of "[''a'', ''b'', ''c'']" opts_fresh]
  by simp

subsection \<open>SetStorageMode\<close>

text \<open>
  C5, as amended. For every \<open>Options\<close> value with a non-empty \<open>Directory\<close>: with mode
  \<open>fs\<close>, when \<open>filepath.Abs\<close> gives the absolute form of \<open>Directory\<close> and the \<open>Chroot\<close>
  to \<open>.git\<close> succeeds, \<open>SetStorageMode\<close> sets the worktree to the OS filesystem rooted
  at that absolute path and the storage to filesystem storage on its \<open>.git\<close>
  sub-directory, and when either call fails it returns the error and leaves the
  \<open>Options\<close> value as it was; with mode \<open>mem\<close> it sets an in-memory worktree and
  in-memory storage; with any other mode it returns an error and leaves the value as
  it was.
\<close>

theorem SetStorageMode_modes:
  assumes "Directory opts \<noteq> ''''"
  shows
    "(\<forall>absDir dotGit.
        filepath_Abs (Directory opts) = Inr absDir \<and>
        Chroot (osfs_New absDir) ''.git'' = Inr dotGit \<longrightarrow>
        SetStorageMode filepath_Abs Chroot ''fs'' opts =
          (None, opts\<lparr>worktree := Some (osfs_New absDir),
                      storage := Some (filesystem_NewStorage dotGit NewObjectLRUDefault)\<rparr>)) \<and>
     (\<forall>e. filepath_Abs (Directory opts) = Inl e \<longrightarrow>
        SetStorageMode filepath_Abs Chroot ''fs'' opts =
          (Some (fmt_Errorf ''invalid directory: %s'' [Err e]), opts)) \<and>
     (\<forall>absDir e.
        filepath_Abs (Directory opts) = Inr absDir \<and>
        Chroot (osfs_New absDir) ''.git'' = Inl e \<longrightarrow>
        SetStorageMode filepath_Abs Chroot ''fs'' opts = (Some e, opts)) \<and>
     SetStorageMode filepath_Abs Chroot ''mem'' opts =
       (None, opts\<lparr>worktree := Some memfs_New, storage := Some memory_NewStorage\<rparr>) \<and>
     (mode \<noteq> ''fs'' \<and> mode \<noteq> ''mem'' \<longrightarrow>
        SetStorageMode filepath_Abs Chroot mode opts =
          (Some (fmt_Errorf ''%q is an invalid storage mode'' [Str mode]), opts))"
  using assms
  by (simp add: SetStorageMode_def FileSystemStorageMode_def MemoryStorageMode_def
        GitDirName_def)

theorem SetStorageMode_modes_witness:
  "Directory opts_fresh \<noteq> '''' \<and>
   filepath_Abs_in_work (Directory opts_fresh) = Inr ''/work/out'' \<and>
   Chroot_ex (osfs_New ''/work/out'') ''.git'' = Inr (osfs_New ''/work/out/.git'') \<and>
   SetStorageMode filepath_Abs_in_work Chroot_ex ''fs'' opts_fresh =
     (None, opts_fresh\<lparr>worktree := Some (osfs_New ''/work/out''),
              storage := Some (filesystem_NewStorage (osfs_New ''/work/out/.git'')
                                 NewObjectLRUDefault)\<rparr>) \<and>
   SetStorageMode filepath_Abs_in_work Chroot_ex ''mem'' opts_fresh =
     (None, opts_fresh\<lparr>worktree := Some memfs_New, storage := Some memory_NewStorage\<rparr>) \<and>
   SetStorageMode filepath_Abs_in_work Chroot_ex ''disk'' opts_fresh =
     (Some (fmt_Errorf ''%q is an invalid storage mode'' [Str ''disk'']), opts_fresh)"
proof -
  have dir: "Directory opts_fresh = ''out''"
    by (simp add: opts_fresh_def opts_ready_def)
  have abs: "filepath_Abs_in_work ''out'' = Inr ''/work/out''"
    by (simp add: filepath_Abs_in_work_def)
  have ch: "Chroot_ex (osfs_New ''/work/out'') ''.git'' = Inr (osfs_New ''/work/out/.git'')"
    by (simp add: Chroot_ex_def)
  show ?thesis
    using SetStorageMode_modes [of opts_fresh filepath_Abs_in_work Chroot_ex "''disk''"]
    by (simp add: dir abs ch)
qed

text \<open>
  C5 as it is written fails for mode \<open>fs\<close>: with the relative directory \<open>out\<close> in a
  process whose working directory is gone, \<open>filepath.Abs\<close> fails, \<open>SetStorageMode\<close>
  returns the error of line 216, and worktree and storage stay nil.
\<close>

theorem SetStorageMode_fs_counterexample:
  "Directory opts_fresh \<noteq> '''' \<and>
   SetStorageMode filepath_Abs_no_cwd Chroot_ex ''fs'' opts_fresh =
     (Some (fmt_Errorf ''invalid directory: %s''
              [Err (library_error ''getwd: no such file or directory'')]),
      opts_fresh) \<and>
   worktree opts_fresh = None \<and> storage opts_fresh = None"
  by (simp add: SetStorageMode_def FileSystemStorageMode_def filepath_Abs_no_cwd_def
        opts_fresh_def opts_ready_def)

text \<open>
  C6. The directory is checked first: for every \<open>Options\<close> value with an empty
  \<open>Directory\<close> and every mode, \<open>fs\<close> and \<open>mem\<close> among them, \<open>SetStorageMode\<close> returns
  an error and leaves worktree and storage (and every other field) as they were.
\<close>

theorem SetStorageMode_empty_directory:
  assumes "Directory opts = ''''"
  shows "SetStorageMode filepath_Abs Chroot mode opts =
           (Some (errors_New ''must initalize directory before setting storage mode''), opts)"
  using assms by (simp add: SetStorageMode_def)

theorem SetStorageMode_empty_directory_witness:
  "Directory (opts_fresh\<lparr>Directory := ''''\<rparr>) = '''' \<and>
   SetStorageMode filepath_Abs_in_work Chroot_ex ''fs'' (opts_fresh\<lparr>Directory := ''''\<rparr>) =
     (Some (errors_New ''must initalize directory before setting storage mode''),
      opts_fresh\<lparr>Directory := ''''\<rparr>) \<and>
   SetStorageMode filepath_Abs_in_work Chroot_ex ''mem'' (opts_fresh\<lparr>Directory := ''''\<rparr>) =
     (Some (errors_New ''must initalize directory before setting storage mode''),
      opts_fresh\<lparr>Directory := ''''\<rparr>)"
  using SetStorageMode_empty_directory
          [of "opts_fresh\<lparr>Directory := ''''\<rparr>" filepath_Abs_in_work Chroot_ex "''fs''"]
        SetStorageMode_empty_directory
          [of "opts_fresh\<lparr>Directory := ''''\<rparr>" filepath_Abs_in_work Chroot_ex "''mem''"]
  by simp

subsection \<open>Auth\<close>

text \<open>The pieces of the repository text of \<open>opts_bad_url\<close>.\<close>

lemma Split_repo_bad_url:
  "strings_Split ''git@exa%mple.com:org/repo.git'' CHR '':'' =
     [''git@exa%mple.com'', ''org/repo.git'']"
  by simp

text \<open>
  Without \<open>SSHAuth\<close>, \<open>Auth\<close> always returns: the basic-auth credential when
  \<open>BasicAuth\<close> is set, and the pair of nils when it is not.
\<close>

lemma Auth_without_ssh:
  assumes "SSHAuth opts = None"
  shows "Auth url_Parse keys opts =
     (case BasicAuth opts of
        Some b \<Rightarrow> Returned (Some (http_BasicAuth (Username b) (Password b)), None)
      | None \<Rightarrow> Returned (None, None))"
  using assms by (simp add: Auth_def Let_def split: option.split)

text \<open>
  With \<open>SSHAuth\<close>, a repository text that does not split in two at \<open>:\<close> skips the
  parse, and the key is loaded for the user \<open>git\<close>.
\<close>

lemma Auth_ssh_not_two_pieces:
  assumes "SSHAuth opts = Some s" and "length (strings_Split (Repo opts) CHR '':'') \<noteq> 2"
  shows "Auth url_Parse keys opts =
     Returned (Some (ssh_PublicKeys (fst (keys ''git'' (PEMPath s) (Passphrase s)))),
               snd (keys ''git'' (PEMPath s) (Passphrase s)))"
  using assms by (simp add: Auth_def ssh_user_def Let_def split: prod.split)

text \<open>
  With \<open>SSHAuth\<close> and a first piece that \<open>url.Parse\<close> accepts, the inner block is
  skipped, and the key is loaded for the user \<open>git\<close> whatever user the text names.
\<close>

lemma Auth_ssh_parse_ok:
  assumes "SSHAuth opts = Some s" and "strings_Split (Repo opts) CHR '':'' = [a, b]"
    and "url_Parse a = (parsed, None)"
  shows "Auth url_Parse keys opts =
     Returned (Some (ssh_PublicKeys (fst (keys ''git'' (PEMPath s) (Passphrase s)))),
               snd (keys ''git'' (PEMPath s) (Passphrase s)))"
  using assms by (simp add: Auth_def ssh_user_def Let_def split: prod.split)

text \<open>
  \<open>strings.Split\<close> gives one piece more than the text has separators, so two pieces
  mean exactly one \<open>:\<close>; joining the pieces with the separator gives the text back.
\<close>

lemma strings_Split_not_Nil: "strings_Split s sep \<noteq> []"
  by (induction s) (auto split: list.split)

lemma length_strings_Split: "length (strings_Split s sep) = Suc (count_list s sep)"
proof (induction s)
  case Nil
  show ?case by simp
next
  case (Cons c cs)
  then show ?case
    using strings_Split_not_Nil [of cs sep] by (auto split: list.split)
qed

text \<open>
  The whole of the panic, for a \<open>url.Parse\<close> that keeps the contract of net/url (a
  non-nil error comes with a nil URL): \<open>Auth\<close> panics exactly when \<open>SSHAuth\<close> is set, the
  repository text has two pieces and the first does not parse.
\<close>

lemma Auth_panics_iff:
  assumes contract: "\<And>t p e. url_Parse t = (p, Some e) \<Longrightarrow> p = None"
  shows "Auth url_Parse keys opts = nil_pointer_dereference \<longleftrightarrow>
           SSHAuth opts \<noteq> None \<and>
           (\<exists>a b. strings_Split (Repo opts) CHR '':'' = [a, b] \<and> snd (url_Parse a) \<noteq> None)"
proof (cases "SSHAuth opts")
  case None
  then show ?thesis
    by (simp add: Auth_without_ssh split: option.split)
next
  case (Some s)
  show ?thesis
  proof (cases "length (strings_Split (Repo opts) CHR '':'') = 2")
    case False
    then have "\<nexists>a b. strings_Split (Repo opts) CHR '':'' = [a, b]"
      by auto
    with False Some show ?thesis
      by (simp add: Auth_ssh_not_two_pieces [OF Some])
  next
    case True
    then obtain a b where ab: "strings_Split (Repo opts) CHR '':'' = [a, b]"
      by (auto simp: numeral_2_eq_2 length_Suc_conv)
    obtain p err where parse: "url_Parse a = (p, err)"
      by (cases "url_Parse a")
    show ?thesis
    proof (cases err)
      case None
      with parse Some ab show ?thesis
        by (simp add: Auth_ssh_parse_ok [OF Some ab])
    next
      case (Some e)
      with parse contract have "url_Parse a = (None, Some e)"
        by blast
      with \<open>SSHAuth opts = Some s\<close> ab show ?thesis
        by (simp add: Auth_def ssh_user_def Let_def)
    qed
  qed
qed

text \<open>
  A repository text that names its own user: the first piece parses, so the block
  that would read the user is skipped and the key is loaded for \<open>git\<close>.
\<close>

lemma Auth_ssh_example:
  "Auth url_Parse_ex NewPublicKeysFromFile_ex opts_ssh =
   Returned (Some (ssh_PublicKeys (Some (''git'', ''/home/alice/.ssh/id_ed25519'', ''''))),
             None)"
  by (simp add: Auth_def ssh_user_def Let_def url_Parse_ex_def NewPublicKeysFromFile_ex_def
        key_ex_def opts_ssh_def)

text \<open>
  C8. For every \<open>Options\<close> value with \<open>SSHAuth\<close> nil and \<open>BasicAuth\<close> set, the credential
  \<open>Auth\<close> returns carries \<open>BasicAuth.Username\<close> and \<open>BasicAuth.Password\<close> as they are;
  with an empty \<open>Username\<close> the credential's user name is empty too, and the local
  default \<open>token\<close> is not written into it.
\<close>

theorem Auth_basic_verbatim:
  assumes "SSHAuth opts = None" and "BasicAuth opts = Some b"
  shows "Auth url_Parse keys opts =
           Returned (Some (http_BasicAuth (Username b) (Password b)), None)"
  using assms by (simp add: Auth_def Let_def)

theorem Auth_basic_verbatim_witness:
  "SSHAuth (opts_ready\<lparr>BasicAuth := Some token_ex\<rparr>) = None \<and>
   BasicAuth (opts_ready\<lparr>BasicAuth := Some token_ex\<rparr>) = Some token_ex \<and>
   Username token_ex = '''' \<and>
   Auth url_Parse_ex NewPublicKeysFromFile_ex (opts_ready\<lparr>BasicAuth := Some token_ex\<rparr>) =
     Returned (Some (http_BasicAuth '''' ''ghp_0123456789''), None)"
  using Auth_basic_verbatim
          [of "opts_ready\<lparr>BasicAuth := Some token_ex\<rparr>" token_ex url_Parse_ex
              NewPublicKeysFromFile_ex]
  by (simp add: opts_ready_def token_ex_def)

text \<open>
  C9, which the code breaks. The claim is that \<open>Auth\<close> never reads through a nil parse
  result. The code does: when \<open>SSHAuth\<close> is set, the repository text has exactly one
  \<open>:\<close> and \<open>url.Parse\<close> rejects the part before it (nil URL, non-nil error), the test
  \<open>err != nil\<close> of line 67 lets the block in and \<open>parsed.User\<close> of line 68 panics.
\<close>

theorem Auth_nil_dereference:
  assumes "SSHAuth opts = Some s" and "strings_Split (Repo opts) CHR '':'' = [a, b]"
    and "url_Parse a = (None, Some e)"
  shows "Auth url_Parse keys opts = nil_pointer_dereference"
  using assms by (simp add: Auth_def ssh_user_def Let_def)

theorem Auth_nil_dereference_witness:
  "SSHAuth opts_bad_url = Some key_ex \<and>
   strings_Split (Repo opts_bad_url) CHR '':'' = [''git@exa%mple.com'', ''org/repo.git''] \<and>
   url_Parse_ex ''git@exa%mple.com'' =
     (None, Some (library_error ''net/url: invalid URL escape'')) \<and>
   Auth url_Parse_ex NewPublicKeysFromFile_ex opts_bad_url = nil_pointer_dereference"
proof -
  have ssh: "SSHAuth opts_bad_url = Some key_ex"
    and repo: "Repo opts_bad_url = ''git@exa%mple.com:org/repo.git''"
    by (simp_all add: opts_bad_url_def)
  have parse: "url_Parse_ex ''git@exa%mple.com'' =
     (None, Some (library_error ''net/url: invalid URL escape''))"
    by (simp add: url_Parse_ex_def)
  have split: "strings_Split (Repo opts_bad_url) CHR '':'' =
      [''git@exa%mple.com'', ''org/repo.git'']"
    by (simp only: repo Split_repo_bad_url)
  have "Auth url_Parse_ex NewPublicKeysFromFile_ex opts_bad_url = nil_pointer_dereference"
    using ssh split parse
    by (rule Auth_nil_dereference [where url_Parse = url_Parse_ex])
  with ssh split parse show ?thesis
    by simp
qed

text \<open>
  C7, which the code breaks at the same place. The claim is that with \<open>SSHAuth\<close> set
  \<open>Auth\<close> returns the key method or the error of loading the key. At the input of the
  previous theorem it returns nothing: no pair is the result of the call.
\<close>

theorem Auth_ssh_returns_nothing:
  "\<nexists>r. Auth url_Parse_ex NewPublicKeysFromFile_ex opts_bad_url = Returned r"
proof -
  have ssh: "SSHAuth opts_bad_url = Some key_ex"
    and repo: "Repo opts_bad_url = ''git@exa%mple.com:org/repo.git''"
    by (simp_all add: opts_bad_url_def)
  have "ssh_user url_Parse_ex (Repo opts_bad_url) = nil_pointer_dereference"
    by (simp only: repo ssh_user_def Split_repo_bad_url Let_def)
       (simp add: url_Parse_ex_def)
  then show ?thesis
    by (simp add: Auth_def ssh)
qed

end
